theory Spec2Isabelle
  imports Main "HOL-Library.Word"
begin

section \<open>The Spout2 capture source of win-spout.cpp\<close>

text \<open>
  The plugin keeps one \<open>struct win_spout\<close> per source and mutates it from the
  callbacks it registers in \<open>obs_module_load\<close>. Each callback is modelled as a function
  from the struct to the struct it leaves behind, together with the list of calls it made
  to the Spout library and to the graphics subsystem, in program order.

  Conventions.
  \<^item> A pointer is an \<open>option\<close>: \<open>None\<close> is \<open>NULL\<close>, \<open>Some p\<close> a live object.
  \<^item> \<open>DWORD\<close> is \<open>32 word\<close>, so subtraction wraps and \<open><\<close> compares unsigned.
    \<open>width\<close> and \<open>height\<close> are \<open>int\<close> fields assigned from \<open>unsigned int\<close> and read
    back through a cast to \<open>uint32_t\<close>; they are kept as the 32 bits they hold.
    \<open>HANDLE\<close> is a 64-bit value that \<open>(uint32_t)\<close> truncates.
  \<^item> \<open>senderName\<close> is the C string held by the 256-byte buffer (its bytes up to the
    first NUL), so a string of length \<open>n\<close> occupies \<open>n + 1\<close> bytes.
  \<^item> The answers of the outside world during one callback (tick counter, Spout
    directory, shared-texture import, host activity) are the record \<open>spout_env\<close>.
  \<^item> The logging macros \<open>info\<close>, \<open>warn\<close>, \<open>debug\<close> have no effect on the struct and are
    left out.
\<close>

subsection \<open>Data\<close>

type_synonym DWORD = "32 word"
type_synonym HANDLE = "64 word"
type_synonym gs_texture = nat

record win_spout =
  source :: nat
  senderName :: string
  useFirstSender :: bool
  texture :: "gs_texture option"
  dxHandle :: HANDLE
  dxFormat :: DWORD
  spoutptr :: "nat option"
  lastCheckTick :: DWORD
  width :: "32 word"
  height :: "32 word"
  initialized :: bool
  active :: bool

text \<open>The two settings the source reads, and the list selection of its property page.\<close>

record obs_data =
  usefirstavailablesender :: bool
  customspoutname :: string
  spoutsenders :: string

text \<open>
  What the outside answers during one callback.
  \<^item> \<open>GetSenderName0\<close> is \<open>GetSenderName(0, buf)\<close>: \<open>Some n\<close> when it returns true having
    written \<open>n\<close> to the buffer, \<open>None\<close> when it returns false and leaves the buffer alone.
  \<^item> \<open>GetSenderInfo\<close> answers \<open>Some (width, height, dxHandle, dxFormat)\<close> when it returns
    true having set its four reference parameters, \<open>None\<close> when it returns false.
  \<^item> \<open>gs_texture_open_shared\<close> answers the imported texture, \<open>None\<close> for a null one.
  \<^item> \<open>gs_effect_loop_passes\<close> is the number of times \<open>gs_effect_loop\<close> answers true
    before it answers false.
\<close>

record spout_env =
  GetTickCount :: DWORD
  GetSenderCount :: int
  GetSenderName0 :: "string option"
  SetActiveSender :: "string \<Rightarrow> bool"
  GetSenderInfo :: "string \<Rightarrow> (32 word \<times> 32 word \<times> HANDLE \<times> DWORD) option"
  gs_texture_open_shared :: "32 word \<Rightarrow> gs_texture option"
  obs_source_active :: bool
  gs_effect_loop_passes :: nat

text \<open>The calls a callback makes to the Spout library and the graphics subsystem.\<close>

datatype event =
    Call_GetSenderCount
  | Call_GetSenderName
  | Call_SetActiveSender string
  | Call_GetSenderInfo string
  | Call_ReleaseReceiver
  | Call_Release
  | Call_gs_texture_destroy "gs_texture option"
  | Call_gs_texture_open_shared "32 word"
  | Call_obs_source_draw gs_texture
  | Call_bfree

text \<open>
  Undefined behaviour of the C++ code is a value: a call through a null \<open>spoutptr\<close>,
  and a \<open>strcpy\<close> that writes past the 256 bytes of \<open>senderName\<close>.
\<close>

datatype error = NullSpoutPointer | SenderNameOverflow

subsection \<open>Discovery\<close>

text \<open>
  \<open>get_first_spount_sender\<close> returns its boolean, the contents of the buffer
  \<open>sender_name\<close> afterwards, and the calls made.
\<close>

definition get_first_spount_sender ::
  "spout_env \<Rightarrow> string \<Rightarrow> bool \<times> string \<times> event list" where
  "get_first_spount_sender env sender_name =
     (if GetSenderCount env = 0 then (False, sender_name, [Call_GetSenderCount])
      else case GetSenderName0 env of
        None \<Rightarrow> (False, sender_name, [Call_GetSenderCount, Call_GetSenderName])
      | Some n \<Rightarrow>
          if \<not> SetActiveSender env n
          then (False, n, [Call_GetSenderCount, Call_GetSenderName, Call_SetActiveSender n])
          else (True, n, [Call_GetSenderCount, Call_GetSenderName, Call_SetActiveSender n]))"

text \<open>
  The tail of \<open>win_spout_init\<close> from \<open>GetSenderInfo\<close> on, entered with the calls made so
  far.
\<close>

definition bind_sender :: "spout_env \<Rightarrow> win_spout \<Rightarrow> event list \<Rightarrow> win_spout \<times> event list" where
  "bind_sender env context evs =
     (case GetSenderInfo env (senderName context) of
        None \<Rightarrow> (context, evs @ [Call_GetSenderInfo (senderName context)])
      | Some (w, h, hdl, fmt) \<Rightarrow>
          (context\<lparr>dxHandle := hdl, dxFormat := fmt, width := w, height := h,
                   texture := gs_texture_open_shared env (ucast hdl),
                   initialized := True\<rparr>,
           evs @ [Call_GetSenderInfo (senderName context),
                  Call_gs_texture_destroy (texture context),
                  Call_gs_texture_open_shared (ucast hdl)]))"

definition win_spout_init :: "bool \<Rightarrow> spout_env \<Rightarrow> win_spout \<Rightarrow> win_spout \<times> event list" where
  "win_spout_init forced env context =
     (if initialized context then (context, [])
      else if GetTickCount env - 5000 < lastCheckTick context \<and> \<not> forced then (context, [])
      else if spoutptr context = None then (context, [])
      else if useFirstSender context then
        (case get_first_spount_sender env (senderName context) of
           (ok, name, evs) \<Rightarrow>
             if \<not> ok then (context\<lparr>senderName := name\<rparr>, evs)
             else bind_sender env (context\<lparr>senderName := name\<rparr>) evs)
      else if GetSenderCount env = 0 then (context, [Call_GetSenderCount])
      else bind_sender env context [Call_GetSenderCount])"

subsection \<open>Release\<close>

definition win_spout_deinit :: "win_spout \<Rightarrow> error + win_spout \<times> event list" where
  "win_spout_deinit context =
     (let c1 = context\<lparr>initialized := False\<rparr>;
          (c2, evs) = (case texture c1 of
                         None \<Rightarrow> (c1, [])
                       | Some t \<Rightarrow> (c1\<lparr>texture := None\<rparr>, [Call_gs_texture_destroy (Some t)]))
      in case spoutptr c2 of
           None \<Rightarrow> Inl NullSpoutPointer
         | Some p \<Rightarrow> Inr (c2, evs @ [Call_ReleaseReceiver]))"

subsection \<open>Configuration\<close>

text \<open>
  \<open>memset(senderName, 0, 256); strcpy(senderName, newName)\<close>: the copy needs
  \<open>length newName + 1\<close> bytes of the 256.
\<close>

definition strcpy_senderName :: "string \<Rightarrow> error + string" where
  "strcpy_senderName newName =
     (if length newName < 256 then Inr newName else Inl SenderNameOverflow)"

definition win_spout_update ::
  "spout_env \<Rightarrow> obs_data \<Rightarrow> win_spout \<Rightarrow> error + win_spout \<times> event list" where
  "win_spout_update env settings context =
     (case strcpy_senderName (customspoutname settings) of
        Inl e \<Rightarrow> Inl e
      | Inr name \<Rightarrow>
          (let c1 = context\<lparr>useFirstSender := usefirstavailablesender settings,
                            senderName := name\<rparr>
           in if initialized c1 then
                (case win_spout_deinit c1 of
                   Inl e \<Rightarrow> Inl e
                 | Inr (c2, evs1) \<Rightarrow>
                     (case win_spout_init False env c2 of
                        (c3, evs2) \<Rightarrow> Inr (c3, evs1 @ evs2)))
              else Inr (c1, [])))"

definition on_toggle_first_available :: "obs_data \<Rightarrow> bool \<times> obs_data" where
  "on_toggle_first_available s =
     (if \<not> usefirstavailablesender s then (True, s\<lparr>customspoutname := []\<rparr>) else (True, s))"

definition on_sender_list_selected :: "obs_data \<Rightarrow> bool \<times> obs_data" where
  "on_sender_list_selected settings =
     (if length (spoutsenders settings) = 0 then (True, settings)
      else (True, settings\<lparr>customspoutname := spoutsenders settings,
                           usefirstavailablesender := False\<rparr>))"

subsection \<open>The remaining callbacks\<close>

definition win_spout_getwidth :: "win_spout \<Rightarrow> 32 word" where
  "win_spout_getwidth context = width context"

definition win_spout_getheight :: "win_spout \<Rightarrow> 32 word" where
  "win_spout_getheight context = height context"

definition win_spout_show :: "spout_env \<Rightarrow> win_spout \<Rightarrow> win_spout \<times> event list" where
  "win_spout_show env context = win_spout_init True env context"

definition win_spout_hide :: "win_spout \<Rightarrow> error + win_spout \<times> event list" where
  "win_spout_hide context = win_spout_deinit context"

text \<open>
  \<open>bzalloc\<close> zeroes the struct; \<open>GetSpout()\<close> answers \<open>spout\<close>.
\<close>

definition win_spout_create ::
  "spout_env \<Rightarrow> obs_data \<Rightarrow> nat \<Rightarrow> nat option \<Rightarrow> error + win_spout \<times> event list" where
  "win_spout_create env settings src spout =
     win_spout_update env settings
       \<lparr>source = src, senderName = [], useFirstSender = True, texture = None,
        dxHandle = 0, dxFormat = 0, spoutptr = spout, lastCheckTick = 0,
        width = 100, height = 100, initialized = False, active = False\<rparr>"

definition win_spout_tick :: "spout_env \<Rightarrow> win_spout \<Rightarrow> win_spout \<times> event list" where
  "win_spout_tick env context =
     (let c1 = context\<lparr>active := obs_source_active env\<rparr>
      in if \<not> initialized c1 then win_spout_init False env c1 else (c1, []))"

definition win_spout_destroy :: "win_spout \<Rightarrow> error + event list" where
  "win_spout_destroy context =
     (case win_spout_deinit context of
        Inl e \<Rightarrow> Inl e
      | Inr (c1, evs) \<Rightarrow>
          (if spoutptr c1 \<noteq> None then Inr (evs @ [Call_Release, Call_bfree])
           else Inr (evs @ [Call_bfree])))"

text \<open>
  The \<open>while (gs_effect_loop(effect, "Draw"))\<close> loop draws once for each pass the host
  grants.
\<close>

fun draw_loop :: "nat \<Rightarrow> gs_texture \<Rightarrow> event list" where
  "draw_loop 0 t = []"
| "draw_loop (Suc n) t = Call_obs_source_draw t # draw_loop n t"

definition win_spout_render :: "spout_env \<Rightarrow> win_spout \<Rightarrow> win_spout \<times> event list" where
  "win_spout_render env context =
     (if \<not> active context then (context, [])
      else if \<not> initialized context then (context, [])
      else case texture context of
        None \<Rightarrow> (context, [])
      | Some t \<Rightarrow> (context, draw_loop (gs_effect_loop_passes env) t))"

subsection \<open>The host driving the callbacks\<close>

text \<open>
  \<open>win_spout_defaults\<close>: an empty custom name, and the first available sender in use.
\<close>

definition win_spout_defaults :: obs_data where
  "win_spout_defaults =
     \<lparr>usefirstavailablesender = True, customspoutname = [], spoutsenders = []\<rparr>"

text \<open>
  After \<open>create\<close> the host calls the callbacks of \<open>obs_source_info\<close> one at a time, each
  with the answers the outside gives during that call. A call that meets undefined
  behaviour ends the run.
\<close>

datatype host_call =
    Tick spout_env
  | Show spout_env
  | Hide
  | Update spout_env obs_data
  | Render spout_env

fun dispatch :: "host_call \<Rightarrow> win_spout \<Rightarrow> error + win_spout \<times> event list" where
  "dispatch (Tick env) c = Inr (win_spout_tick env c)"
| "dispatch (Show env) c = Inr (win_spout_show env c)"
| "dispatch Hide c = win_spout_hide c"
| "dispatch (Update env settings) c = win_spout_update env settings c"
| "dispatch (Render env) c = Inr (win_spout_render env c)"

fun run :: "host_call list \<Rightarrow> win_spout \<Rightarrow> error + win_spout \<times> event list" where
  "run [] c = Inr (c, [])"
| "run (x # xs) c =
     (case dispatch x c of
        Inl e \<Rightarrow> Inl e
      | Inr (c1, evs1) \<Rightarrow>
          (case run xs c1 of
             Inl e \<Rightarrow> Inl e
           | Inr (c2, evs2) \<Rightarrow> Inr (c2, evs1 @ evs2)))"

subsection \<open>Reading the list of calls\<close>

text \<open>The textures handed, non-null, to \<open>gs_texture_destroy\<close>, in order.\<close>

fun destroyed :: "event list \<Rightarrow> gs_texture list" where
  "destroyed [] = []"
| "destroyed (Call_gs_texture_destroy (Some t) # es) = t # destroyed es"
| "destroyed (e # es) = destroyed es"

text \<open>
  Every discovery attempt that reaches the directory starts with exactly one
  \<open>GetSenderCount\<close>, so counting those counts the attempts.
\<close>

definition discovery_attempts :: "event list \<Rightarrow> nat" where
  "discovery_attempts evs = count_list evs Call_GetSenderCount"

subsection \<open>Concrete situations\<close>

text \<open>A directory with no sender, asked at tick count \<open>now\<close>.\<close>

definition env_no_senders :: "DWORD \<Rightarrow> spout_env" where
  "env_no_senders now =
     \<lparr>GetTickCount = now, GetSenderCount = 0, GetSenderName0 = None,
      SetActiveSender = (\<lambda>n. False), GetSenderInfo = (\<lambda>n. None),
      gs_texture_open_shared = (\<lambda>h. None), obs_source_active = True,
      gs_effect_loop_passes = 1\<rparr>"

text \<open>
  A directory whose only sender is \<open>name\<close>, 1920 by 1080, with share handle 64, asked
  at tick count \<open>now\<close>; the import of any handle answers \<open>tex\<close>.
\<close>

definition env_sender :: "string \<Rightarrow> DWORD \<Rightarrow> gs_texture option \<Rightarrow> spout_env" where
  "env_sender name now tex =
     \<lparr>GetTickCount = now, GetSenderCount = 1, GetSenderName0 = Some name,
      SetActiveSender = (\<lambda>n. n = name),
      GetSenderInfo = (\<lambda>n. if n = name then Some (1920, 1080, 64, 87) else None),
      gs_texture_open_shared = (\<lambda>h. tex), obs_source_active = True,
      gs_effect_loop_passes = 1\<rparr>"

text \<open>The struct that \<open>create\<close> leaves with the default settings and a live Spout object.\<close>

definition fresh :: win_spout where
  "fresh =
     \<lparr>source = 0, senderName = [], useFirstSender = True, texture = None,
      dxHandle = 0, dxFormat = 0, spoutptr = Some 1, lastCheckTick = 0,
      width = 100, height = 100, initialized = False, active = False\<rparr>"

text \<open>The same struct once bound to \<open>camA\<close> with texture 7.\<close>

definition bound_camA :: win_spout where
  "bound_camA =
     \<lparr>source = 0, senderName = ''camA'', useFirstSender = True, texture = Some 7,
      dxHandle = 64, dxFormat = 87, spoutptr = Some 1, lastCheckTick = 0,
      width = 1920, height = 1080, initialized = True, active = True\<rparr>"

text \<open>Settings that name \<open>camB\<close>, with and without the first-available flag.\<close>

definition settings_camB :: "bool \<Rightarrow> obs_data" where
  "settings_camB first =
     \<lparr>usefirstavailablesender = first, customspoutname = ''camB'', spoutsenders = []\<rparr>"

text \<open>Settings whose custom name has 256 characters.\<close>

definition settings_long :: obs_data where
  "settings_long =
     \<lparr>usefirstavailablesender = False, customspoutname = replicate 256 (CHR ''a''),
      spoutsenders = []\<rparr>"

text \<open>An outcome with the stored sender name blanked, to compare outcomes up to that name.\<close>

definition blank_name :: "win_spout \<times> event list \<Rightarrow> win_spout \<times> event list" where
  "blank_name r = ((fst r)\<lparr>senderName := []\<rparr>, snd r)"

subsection \<open>The dimensions of the last producer bound\<close>

text \<open>
  A callback has bound a producer exactly when it reached \<open>gs_texture_open_shared\<close>, which
  \<open>win_spout_init\<close> calls only after \<open>GetSenderInfo\<close> has answered for the name it looked
  up. \<open>reported_dims\<close> reads from the calls of one callback the width and height that
  the directory reported for that producer, if the callback bound one.
\<close>

fun imported :: "event list \<Rightarrow> bool" where
  "imported [] = False"
| "imported (Call_gs_texture_open_shared h # es) = True"
| "imported (e # es) = imported es"

fun looked_up :: "event list \<Rightarrow> string option" where
  "looked_up [] = None"
| "looked_up (Call_GetSenderInfo n # es) = Some n"
| "looked_up (e # es) = looked_up es"

fun call_env :: "host_call \<Rightarrow> spout_env option" where
  "call_env (Tick env) = Some env"
| "call_env (Show env) = Some env"
| "call_env Hide = None"
| "call_env (Update env settings) = Some env"
| "call_env (Render env) = Some env"

definition reported_dims :: "spout_env \<Rightarrow> event list \<Rightarrow> (32 word \<times> 32 word) option" where
  "reported_dims env evs =
     (if imported evs then
        (case looked_up evs of
           None \<Rightarrow> None
         | Some n \<Rightarrow>
             (case GetSenderInfo env n of
                None \<Rightarrow> None
              | Some (w, h, hdl, fmt) \<Rightarrow> Some (w, h)))
      else None)"

definition bound_dims :: "host_call \<Rightarrow> event list \<Rightarrow> (32 word \<times> 32 word) option" where
  "bound_dims x evs =
     (case call_env x of None \<Rightarrow> None | Some env \<Rightarrow> reported_dims env evs)"

text \<open>
  The dimensions of the last producer that a run of callbacks bound successfully, or
  the dimensions \<open>d\<close> it started from if it bound none.
\<close>

fun last_bound_dims ::
  "host_call list \<Rightarrow> win_spout \<Rightarrow> 32 word \<times> 32 word \<Rightarrow> 32 word \<times> 32 word" where
  "last_bound_dims [] c d = d"
| "last_bound_dims (x # xs) c d =
     (case dispatch x c of
        Inl e \<Rightarrow> d
      | Inr (c1, evs) \<Rightarrow>
          last_bound_dims xs c1 (case bound_dims x evs of None \<Rightarrow> d | Some d1 \<Rightarrow> d1))"

section \<open>Properties\<close>

subsection \<open>Facts about the single callbacks\<close>

lemmas init_defs = win_spout_init_def bind_sender_def get_first_spount_sender_def

lemma init_lastCheckTick: "lastCheckTick (fst (win_spout_init forced env c)) = lastCheckTick c"
  by (simp add: init_defs split: option.splits prod.splits)

lemma init_spoutptr: "spoutptr (fst (win_spout_init forced env c)) = spoutptr c"
  by (simp add: init_defs split: option.splits prod.splits)

lemma init_bound_keeps: "initialized c \<Longrightarrow> win_spout_init forced env c = (c, [])"
  by (simp add: win_spout_init_def)

lemma init_unbound_same:
  "\<not> initialized (fst (win_spout_init forced env c)) \<Longrightarrow>
     width (fst (win_spout_init forced env c)) = width c \<and>
     height (fst (win_spout_init forced env c)) = height c \<and>
     texture (fst (win_spout_init forced env c)) = texture c"
  by (auto simp add: init_defs split: option.splits prod.splits if_splits)

lemma init_unbound_null:
  "initialized c \<or> texture c = None \<Longrightarrow>
     initialized (fst (win_spout_init forced env c)) \<or>
     texture (fst (win_spout_init forced env c)) = None"
  by (auto simp add: init_defs split: option.splits prod.splits if_splits)

lemma init_binds_import:
  "\<not> initialized c \<Longrightarrow> initialized (fst (win_spout_init forced env c)) \<Longrightarrow>
     texture (fst (win_spout_init forced env c)) =
       gs_texture_open_shared env (ucast (dxHandle (fst (win_spout_init forced env c))))"
  by (auto simp add: init_defs split: option.splits prod.splits if_splits)

lemma init_bound_has_spout:
  "initialized (fst (win_spout_init forced env c)) \<Longrightarrow> initialized c \<or> spoutptr c \<noteq> None"
  by (auto simp add: init_defs split: option.splits prod.splits if_splits)

lemma deinit_live:
  "spoutptr c = Some p \<Longrightarrow>
     win_spout_deinit c =
       Inr (c\<lparr>initialized := False, texture := None\<rparr>,
            (case texture c of None \<Rightarrow> [] | Some t \<Rightarrow> [Call_gs_texture_destroy (Some t)])
              @ [Call_ReleaseReceiver])"
  by (cases c) (simp add: win_spout_deinit_def split: option.splits)

lemma deinit_null: "spoutptr c = None \<Longrightarrow> win_spout_deinit c = Inl NullSpoutPointer"
  by (simp add: win_spout_deinit_def Let_def split: option.splits)

lemma deinit_Inr:
  "win_spout_deinit c = Inr (c', evs) \<Longrightarrow>
     c' = c\<lparr>initialized := False, texture := None\<rparr> \<and> spoutptr c \<noteq> None"
  by (cases "spoutptr c") (auto simp add: deinit_live deinit_null)

lemma count_attempts_init:
  "discovery_attempts (snd (win_spout_init forced env c)) =
     (if initialized c \<or> (GetTickCount env - 5000 < lastCheckTick c \<and> \<not> forced) \<or> spoutptr c = None
      then 0 else 1)"
  by (simp add: init_defs discovery_attempts_def split: option.splits prod.splits)


lemma update_unbound:
  "length (customspoutname s) < 256 \<Longrightarrow> \<not> initialized c \<Longrightarrow>
     win_spout_update env s c =
       Inr (c\<lparr>useFirstSender := usefirstavailablesender s, senderName := customspoutname s\<rparr>, [])"
  by (simp add: win_spout_update_def strcpy_senderName_def)

lemma update_bound:
  "length (customspoutname s) < 256 \<Longrightarrow> initialized c \<Longrightarrow> spoutptr c = Some p \<Longrightarrow>
     win_spout_update env s c =
       Inr (fst (win_spout_init False env
                  (c\<lparr>useFirstSender := usefirstavailablesender s,
                     senderName := customspoutname s, initialized := False, texture := None\<rparr>)),
            (case texture c of None \<Rightarrow> [] | Some t \<Rightarrow> [Call_gs_texture_destroy (Some t)])
              @ Call_ReleaseReceiver #
              snd (win_spout_init False env
                  (c\<lparr>useFirstSender := usefirstavailablesender s,
                     senderName := customspoutname s, initialized := False, texture := None\<rparr>)))"
  by (simp add: win_spout_update_def strcpy_senderName_def deinit_live split: prod.splits)

lemma update_bound_null:
  "length (customspoutname s) < 256 \<Longrightarrow> initialized c \<Longrightarrow> spoutptr c = None \<Longrightarrow>
     win_spout_update env s c = Inl NullSpoutPointer"
  by (simp add: win_spout_update_def strcpy_senderName_def deinit_null)

lemma update_long:
  "256 \<le> length (customspoutname s) \<Longrightarrow> win_spout_update env s c = Inl SenderNameOverflow"
  by (simp add: win_spout_update_def strcpy_senderName_def)

lemma create_fresh:
  "win_spout_create env win_spout_defaults 0 (Some 1) = Inr (fresh, [])"
  by (simp add: win_spout_create_def win_spout_defaults_def fresh_def update_unbound)

lemma init_binds_dims:
  "\<not> initialized c \<Longrightarrow> initialized (fst (win_spout_init forced env c)) \<Longrightarrow>
     GetSenderInfo env (senderName (fst (win_spout_init forced env c))) =
       Some (width (fst (win_spout_init forced env c)), height (fst (win_spout_init forced env c)),
             dxHandle (fst (win_spout_init forced env c)), dxFormat (fst (win_spout_init forced env c)))"
  by (auto simp add: init_defs split: option.splits prod.splits if_splits)

lemma init_first_name:
  "useFirstSender c \<Longrightarrow> \<not> initialized c \<Longrightarrow> initialized (fst (win_spout_init forced env c)) \<Longrightarrow>
     GetSenderName0 env = Some (senderName (fst (win_spout_init forced env c)))"
  by (auto simp add: init_defs split: option.splits prod.splits if_splits)

lemma init_blank_name:
  "useFirstSender c \<Longrightarrow>
     blank_name (win_spout_init forced env (c\<lparr>senderName := a\<rparr>)) =
     blank_name (win_spout_init forced env (c\<lparr>senderName := b\<rparr>))"
  by (simp add: init_defs blank_name_def split: option.splits prod.splits)

lemma init_no_senders:
  "GetSenderCount env = 0 \<Longrightarrow>
     win_spout_init forced env c =
       (c, if initialized c \<or> (GetTickCount env - 5000 < lastCheckTick c \<and> \<not> forced)
                \<or> spoutptr c = None
           then [] else [Call_GetSenderCount])"
  by (simp add: init_defs)

lemma update_blank_name:
  assumes "usefirstavailablesender s1" "usefirstavailablesender s2"
    and "length (customspoutname s1) < 256" "length (customspoutname s2) < 256"
  shows "map_sum id blank_name (win_spout_update env s1 c) =
         map_sum id blank_name (win_spout_update env s2 c)"
proof (cases "initialized c")
  case False
  with assms show ?thesis by (simp add: update_unbound blank_name_def)
next
  case True
  show ?thesis
  proof (cases "spoutptr c")
    case None
    with assms True show ?thesis by (simp add: update_bound_null)
  next
    case (Some p)
    let ?d = "c\<lparr>useFirstSender := True, initialized := False, texture := None\<rparr>"
    have e: "\<And>n. c\<lparr>useFirstSender := True, senderName := n, initialized := False, texture := None\<rparr>
               = ?d\<lparr>senderName := n\<rparr>"
      by simp
    have b: "blank_name (win_spout_init False env (?d\<lparr>senderName := customspoutname s1\<rparr>)) =
             blank_name (win_spout_init False env (?d\<lparr>senderName := customspoutname s2\<rparr>))"
      by (rule init_blank_name) simp
    then have "fst (blank_name (win_spout_init False env (?d\<lparr>senderName := customspoutname s1\<rparr>))) =
             fst (blank_name (win_spout_init False env (?d\<lparr>senderName := customspoutname s2\<rparr>)))"
       and "snd (blank_name (win_spout_init False env (?d\<lparr>senderName := customspoutname s1\<rparr>))) =
             snd (blank_name (win_spout_init False env (?d\<lparr>senderName := customspoutname s2\<rparr>)))"
      by simp_all
    then show ?thesis
      using assms True Some unfolding update_bound [OF assms(3) True Some]
        update_bound [OF assms(4) True Some]
      by (simp add: e blank_name_def)
  qed
qed

lemma hide_live:
  "spoutptr c = Some p \<Longrightarrow>
     win_spout_hide c =
       Inr (c\<lparr>initialized := False, texture := None\<rparr>,
            (case texture c of None \<Rightarrow> [] | Some t \<Rightarrow> [Call_gs_texture_destroy (Some t)])
              @ [Call_ReleaseReceiver])"
  by (simp add: win_spout_hide_def deinit_live)

lemma destroy_live:
  "spoutptr c = Some p \<Longrightarrow>
     win_spout_destroy c =
       Inr ((case texture c of None \<Rightarrow> [] | Some t \<Rightarrow> [Call_gs_texture_destroy (Some t)])
              @ [Call_ReleaseReceiver, Call_Release, Call_bfree])"
  by (simp add: win_spout_destroy_def deinit_live)

lemma set_draw_loop: "set (draw_loop n t) \<subseteq> {Call_obs_source_draw t}"
  by (induction n) auto

lemma destroyed_deinit_events:
  "destroyed ((case tx of None \<Rightarrow> [] | Some t \<Rightarrow> [Call_gs_texture_destroy (Some t)])
              @ [Call_ReleaseReceiver]) =
     (case tx of None \<Rightarrow> [] | Some t \<Rightarrow> [t])"
  by (cases tx) simp_all

lemma init_imported:
  "imported (snd (win_spout_init forced env c)) =
     (\<not> initialized c \<and> initialized (fst (win_spout_init forced env c)))"
  by (auto simp add: init_defs split: option.splits prod.splits if_splits)

lemma init_step_dims:
  "(width (fst (win_spout_init forced env c)), height (fst (win_spout_init forced env c))) =
     (case reported_dims env (snd (win_spout_init forced env c)) of
        None \<Rightarrow> (width c, height c) | Some d \<Rightarrow> d)"
  by (auto simp add: init_defs reported_dims_def split: option.splits prod.splits if_splits)

lemma init_unforced_zero:
  "lastCheckTick c = 0 \<Longrightarrow> win_spout_init False env c = win_spout_init True env c"
  by (simp add: win_spout_init_def)

lemma imported_draw_loop: "imported (draw_loop n t) = False"
  by (induction n) simp_all

lemma reported_dims_release:
  "reported_dims env
     ((case tx of None \<Rightarrow> [] | Some t \<Rightarrow> [Call_gs_texture_destroy (Some t)])
        @ Call_ReleaseReceiver # evs) = reported_dims env evs"
  by (cases tx) (simp_all add: reported_dims_def)

subsection \<open>What every run of callbacks preserves\<close>

lemma tick_unfold:
  "win_spout_tick env c =
     (if initialized c then (c\<lparr>active := obs_source_active env\<rparr>, [])
      else win_spout_init False env (c\<lparr>active := obs_source_active env\<rparr>))"
  by (simp add: win_spout_tick_def Let_def)

lemma render_same: "fst (win_spout_render env c) = c"
  by (simp add: win_spout_render_def split: option.splits)

lemma dispatch_keeps:
  "dispatch x c = Inr (c', evs) \<Longrightarrow>
     spoutptr c' = spoutptr c \<and> lastCheckTick c' = lastCheckTick c"
proof (cases x)
  case (Tick env)
  assume "dispatch x c = Inr (c', evs)"
  with Tick have "c' = fst (win_spout_tick env c)" by auto
  then show ?thesis by (simp add: tick_unfold init_spoutptr init_lastCheckTick)
next
  case (Show env)
  assume "dispatch x c = Inr (c', evs)"
  with Show have "c' = fst (win_spout_init True env c)" by (auto simp: win_spout_show_def)
  then show ?thesis by (simp add: init_spoutptr init_lastCheckTick)
next
  case Hide
  assume "dispatch x c = Inr (c', evs)"
  with Hide have "win_spout_deinit c = Inr (c', evs)" by (simp add: win_spout_hide_def)
  from deinit_Inr [OF this] show ?thesis by simp
next
  case (Update env s)
  assume "dispatch x c = Inr (c', evs)"
  with Update have u: "win_spout_update env s c = Inr (c', evs)" by simp
  have len: "length (customspoutname s) < 256"
    using u update_long [of s env c] by (cases "length (customspoutname s) < 256") auto
  show ?thesis
  proof (cases "initialized c")
    case False
    with u len show ?thesis by (auto simp add: update_unbound)
  next
    case True
    show ?thesis
    proof (cases "spoutptr c")
      case None
      with u len True show ?thesis by (auto simp add: update_bound_null)
    next
      case (Some p)
      with u len True show ?thesis
        by (auto simp add: update_bound init_spoutptr init_lastCheckTick)
    qed
  qed
next
  case (Render env)
  assume "dispatch x c = Inr (c', evs)"
  with Render have "c' = fst (win_spout_render env c)" by auto
  then show ?thesis by (simp add: render_same)
qed

lemma dispatch_bound_spout:
  "dispatch x c = Inr (c', evs) \<Longrightarrow> initialized c \<longrightarrow> spoutptr c \<noteq> None \<Longrightarrow>
     initialized c' \<longrightarrow> spoutptr c' \<noteq> None"
proof (cases x)
  case (Tick env)
  assume a: "dispatch x c = Inr (c', evs)" "initialized c \<longrightarrow> spoutptr c \<noteq> None"
  with Tick have "c' = fst (win_spout_tick env c)" by auto
  then show ?thesis using a(2) init_bound_has_spout [of False env "c\<lparr>active := obs_source_active env\<rparr>"]
    by (auto simp add: tick_unfold init_spoutptr split: if_splits)
next
  case (Show env)
  assume a: "dispatch x c = Inr (c', evs)" "initialized c \<longrightarrow> spoutptr c \<noteq> None"
  with Show have "c' = fst (win_spout_init True env c)" by (auto simp: win_spout_show_def)
  then show ?thesis using a(2) init_bound_has_spout [of True env c]
    by (auto simp add: init_spoutptr)
next
  case Hide
  assume "dispatch x c = Inr (c', evs)"
  with Hide have "win_spout_deinit c = Inr (c', evs)" by (simp add: win_spout_hide_def)
  from deinit_Inr [OF this] show ?thesis by simp
next
  case (Update env s)
  assume a: "dispatch x c = Inr (c', evs)"
  have "spoutptr c' = spoutptr c" using dispatch_keeps [OF a] by simp
  moreover
  from a Update have u: "win_spout_update env s c = Inr (c', evs)" by simp
  have len: "length (customspoutname s) < 256"
    using u update_long [of s env c] by (cases "length (customspoutname s) < 256") auto
  have "initialized c' \<Longrightarrow> spoutptr c \<noteq> None"
  proof (cases "initialized c")
    case False
    assume "initialized c'"
    with u len False show ?thesis by (auto simp add: update_unbound)
  next
    case True
    with u len show ?thesis by (cases "spoutptr c") (auto simp add: update_bound_null)
  qed
  ultimately show ?thesis by simp
next
  case (Render env)
  assume a: "dispatch x c = Inr (c', evs)" "initialized c \<longrightarrow> spoutptr c \<noteq> None"
  with Render have "c' = fst (win_spout_render env c)" by auto
  then show ?thesis using a(2) by (simp add: render_same)
qed

lemma run_bound_spout:
  "run xs c = Inr (c', evs) \<Longrightarrow> initialized c \<longrightarrow> spoutptr c \<noteq> None \<Longrightarrow>
     initialized c' \<longrightarrow> spoutptr c' \<noteq> None"
proof (induction xs arbitrary: c evs)
  case Nil
  then show ?case by simp
next
  case (Cons x xs)
  from Cons.prems(1) obtain c1 e1 e2 where
    d: "dispatch x c = Inr (c1, e1)" and r: "run xs c1 = Inr (c', e2)"
    by (auto split: sum.splits)
  from dispatch_bound_spout [OF d Cons.prems(2)] Cons.IH [OF r] show ?case by blast
qed

lemma run_lastCheckTick:
  "run xs c = Inr (c', evs) \<Longrightarrow> lastCheckTick c' = lastCheckTick c"
proof (induction xs arbitrary: c evs)
  case Nil
  then show ?case by simp
next
  case (Cons x xs)
  from Cons.prems(1) obtain c1 e1 e2 where
    d: "dispatch x c = Inr (c1, e1)" and r: "run xs c1 = Inr (c', e2)"
    by (auto split: sum.splits)
  from dispatch_keeps [OF d] Cons.IH [OF r] show ?case by simp
qed

lemma create_unbound:
  "win_spout_create env s src spout = Inr (c, evs) \<Longrightarrow>
     \<not> initialized c \<and> lastCheckTick c = 0 \<and> width c = 100 \<and> height c = 100 \<and> texture c = None \<and> evs = []"
  by (auto simp add: win_spout_create_def win_spout_update_def strcpy_senderName_def split: if_splits)

lemma dispatch_unbound_dims:
  assumes "dispatch x c = Inr (c', evs)" and "\<not> initialized c'"
  shows "width c' = width c \<and> height c' = height c"
proof (cases x)
  case (Tick env)
  with assms(1) have c': "c' = fst (win_spout_tick env c)" by auto
  show ?thesis
  proof (cases "initialized c")
    case True
    then show ?thesis unfolding c' by (simp add: tick_unfold)
  next
    case False
    then have "c' = fst (win_spout_init False env (c\<lparr>active := obs_source_active env\<rparr>))"
      unfolding c' by (simp add: tick_unfold)
    with assms(2) init_unbound_same [of False env "c\<lparr>active := obs_source_active env\<rparr>"]
    show ?thesis by simp
  qed
next
  case (Show env)
  with assms(1) have "c' = fst (win_spout_init True env c)" by (auto simp: win_spout_show_def)
  with assms(2) init_unbound_same [of True env c] show ?thesis by simp
next
  case Hide
  with assms(1) have "win_spout_deinit c = Inr (c', evs)" by (simp add: win_spout_hide_def)
  from deinit_Inr [OF this] show ?thesis by simp
next
  case (Update env s)
  with assms(1) have u: "win_spout_update env s c = Inr (c', evs)" by simp
  have len: "length (customspoutname s) < 256"
    using u update_long [of s env c] by (cases "length (customspoutname s) < 256") auto
  show ?thesis
  proof (cases "initialized c")
    case False
    with u len show ?thesis by (auto simp add: update_unbound)
  next
    case True
    show ?thesis
    proof (cases "spoutptr c")
      case None
      with u len True show ?thesis by (auto simp add: update_bound_null)
    next
      case (Some p)
      let ?c1 = "c\<lparr>useFirstSender := usefirstavailablesender s,
                    senderName := customspoutname s, initialized := False, texture := None\<rparr>"
      from u have "c' = fst (win_spout_init False env ?c1)"
        unfolding update_bound [OF len True Some] by simp
      with assms(2) init_unbound_same [of False env ?c1] show ?thesis by simp
    qed
  qed
next
  case (Render env)
  with assms(1) have "c' = fst (win_spout_render env c)" by auto
  then show ?thesis by (simp add: render_same)
qed

text \<open>
  Each callback leaves width and height as they were unless it bound a producer, and
  then they are that producer's; so after any run they are those of the last producer
  bound.
\<close>

lemma dispatch_step_dims:
  assumes "dispatch x c = Inr (c', evs)"
  shows "(width c', height c') =
           (case bound_dims x evs of None \<Rightarrow> (width c, height c) | Some d \<Rightarrow> d)"
proof (cases x)
  case (Tick env)
  with assms have r: "win_spout_tick env c = (c', evs)" by auto
  show ?thesis
  proof (cases "initialized c")
    case True
    with r Tick show ?thesis by (auto simp add: tick_unfold bound_dims_def reported_dims_def)
  next
    case False
    with r have "c' = fst (win_spout_init False env (c\<lparr>active := obs_source_active env\<rparr>))"
      and "evs = snd (win_spout_init False env (c\<lparr>active := obs_source_active env\<rparr>))"
      by (auto simp add: tick_unfold)
    with init_step_dims [of False env "c\<lparr>active := obs_source_active env\<rparr>"] Tick
    show ?thesis by (simp add: bound_dims_def split: option.splits)
  qed
next
  case (Show env)
  with assms have "c' = fst (win_spout_init True env c)" "evs = snd (win_spout_init True env c)"
    by (auto simp: win_spout_show_def)
  with init_step_dims [of True env c] Show show ?thesis by (simp add: bound_dims_def)
next
  case Hide
  with assms have "win_spout_deinit c = Inr (c', evs)" by (simp add: win_spout_hide_def)
  from deinit_Inr [OF this] Hide show ?thesis by (simp add: bound_dims_def)
next
  case (Update env s)
  with assms have u: "win_spout_update env s c = Inr (c', evs)" by simp
  have len: "length (customspoutname s) < 256"
    using u update_long [of s env c] by (cases "length (customspoutname s) < 256") auto
  show ?thesis
  proof (cases "initialized c")
    case False
    with u len Update show ?thesis
      by (auto simp add: update_unbound bound_dims_def reported_dims_def)
  next
    case True
    show ?thesis
    proof (cases "spoutptr c")
      case None
      with u len True show ?thesis by (auto simp add: update_bound_null)
    next
      case (Some p)
      let ?c1 = "c\<lparr>useFirstSender := usefirstavailablesender s,
                    senderName := customspoutname s, initialized := False, texture := None\<rparr>"
      from u have c': "c' = fst (win_spout_init False env ?c1)"
        and evs: "evs = (case texture c of None \<Rightarrow> []
                         | Some t \<Rightarrow> [Call_gs_texture_destroy (Some t)])
                        @ Call_ReleaseReceiver # snd (win_spout_init False env ?c1)"
        unfolding update_bound [OF len True Some] by simp_all
      from init_step_dims [of False env ?c1] Update show ?thesis
        unfolding c' evs by (simp add: bound_dims_def reported_dims_release split: option.splits)
    qed
  qed
next
  case (Render env)
  with assms have "c' = fst (win_spout_render env c)" "evs = snd (win_spout_render env c)"
    by auto
  then show ?thesis using Render
    by (simp add: render_same bound_dims_def reported_dims_def win_spout_render_def
          imported_draw_loop split: option.splits)
qed

lemma run_last_bound_dims:
  "run xs c = Inr (c', evs) \<Longrightarrow>
     (width c', height c') = last_bound_dims xs c (width c, height c)"
proof (induction xs arbitrary: c evs)
  case Nil
  then show ?case by simp
next
  case (Cons x xs)
  from Cons.prems obtain c1 e1 e2 where
    d: "dispatch x c = Inr (c1, e1)" and r: "run xs c1 = Inr (c', e2)"
    by (auto split: sum.splits)
  from Cons.IH [OF r] dispatch_step_dims [OF d] d show ?case by simp
qed

lemma dispatch_unbound_null:
  assumes "dispatch x c = Inr (c', evs)" and "initialized c \<or> texture c = None"
  shows "initialized c' \<or> texture c' = None"
proof (cases x)
  case (Tick env)
  with assms(1) have c': "c' = fst (win_spout_tick env c)" by auto
  show ?thesis
  proof (cases "initialized c")
    case True
    then show ?thesis unfolding c' by (simp add: tick_unfold)
  next
    case False
    with assms(2) have "initialized (c\<lparr>active := obs_source_active env\<rparr>) \<or>
        texture (c\<lparr>active := obs_source_active env\<rparr>) = None" by simp
    from init_unbound_null [OF this, of False env] False show ?thesis
      unfolding c' by (simp add: tick_unfold)
  qed
next
  case (Show env)
  with assms(1) have "c' = fst (win_spout_init True env c)" by (auto simp: win_spout_show_def)
  with init_unbound_null [OF assms(2), of True env] show ?thesis by simp
next
  case Hide
  with assms(1) have "win_spout_deinit c = Inr (c', evs)" by (simp add: win_spout_hide_def)
  from deinit_Inr [OF this] show ?thesis by simp
next
  case (Update env s)
  with assms(1) have u: "win_spout_update env s c = Inr (c', evs)" by simp
  have len: "length (customspoutname s) < 256"
    using u update_long [of s env c] by (cases "length (customspoutname s) < 256") auto
  show ?thesis
  proof (cases "initialized c")
    case False
    with u len assms(2) show ?thesis by (auto simp add: update_unbound)
  next
    case True
    show ?thesis
    proof (cases "spoutptr c")
      case None
      with u len True show ?thesis by (auto simp add: update_bound_null)
    next
      case (Some p)
      let ?c1 = "c\<lparr>useFirstSender := usefirstavailablesender s,
                    senderName := customspoutname s, initialized := False, texture := None\<rparr>"
      from u have c': "c' = fst (win_spout_init False env ?c1)"
        unfolding update_bound [OF len True Some] by simp
      have "initialized ?c1 \<or> texture ?c1 = None" by simp
      from init_unbound_null [OF this, of False env] show ?thesis unfolding c' .
    qed
  qed
next
  case (Render env)
  with assms(1) have "c' = fst (win_spout_render env c)" by auto
  with assms(2) show ?thesis by (simp add: render_same)
qed

text \<open>Every struct that a run of callbacks reaches is bound or has a null texture.\<close>

lemma run_unbound_null:
  assumes "win_spout_create env0 s0 src spout = Inr (c0, e0)"
    and "run calls c0 = Inr (c, evs)"
  shows "initialized c \<or> texture c = None"
proof -
  have "run xs a = Inr (b, es) \<Longrightarrow> initialized a \<or> texture a = None \<Longrightarrow>
          initialized b \<or> texture b = None" for xs a b es
  proof (induction xs arbitrary: a es)
    case Nil
    then show ?case by simp
  next
    case (Cons x xs)
    from Cons.prems(1) obtain a1 e1 e2 where
      d: "dispatch x a = Inr (a1, e1)" and r: "run xs a1 = Inr (b, e2)"
      by (auto split: sum.splits)
    from Cons.IH [OF r dispatch_unbound_null [OF d Cons.prems(2)]] show ?case .
  qed
  from this [OF assms(2)] create_unbound [OF assms(1)] show ?thesis by simp
qed

text \<open>
  \<open>lastCheckTick\<close> is zero after \<open>create\<close> and no callback assigns it, so the check
  \<open>GetTickCount() - 5000 < lastCheckTick\<close> of \<open>win_spout_init\<close> is false in every run.
\<close>

lemma run_never_throttled:
  assumes "win_spout_create env0 s0 src spout = Inr (c0, e0)"
    and "run calls c0 = Inr (c, evs)"
  shows "lastCheckTick c = 0 \<and> \<not> (GetTickCount env - 5000 < lastCheckTick c)"
  using create_unbound [OF assms(1)] run_lastCheckTick [OF assms(2)] by simp

section \<open>The claims\<close>

subsection \<open>C1: texture and bound flag after a discovery attempt\<close>

text \<open>
  C1 says that after \<open>win_spout_init\<close> the instance is never bound with a null texture,
  and that a null import leaves it unbound. It fails: with one sender in the directory
  and an import that answers null, a non-forced attempt on the freshly created struct
  ends with \<open>initialized = true\<close> and \<open>texture = NULL\<close>, because \<open>initialized\<close> is set
  without looking at what \<open>gs_texture_open_shared\<close> returned.
\<close>

theorem discover_bound_null_texture_counterexample:
  "initialized (fst (win_spout_init False (env_sender ''camA'' 10000 None) fresh)) \<and>
   texture (fst (win_spout_init False (env_sender ''camA'' 10000 None) fresh)) = None"
  by (simp add: init_defs env_sender_def fresh_def)

text \<open>
  C1 as amended: from a struct in which unbound implies a null texture, a discovery
  attempt never leaves a non-null texture with \<open>initialized = false\<close>; when the attempt
  binds, the texture is whatever the shared-handle import answered for the truncated
  handle, null included; and once bound, a tick only refreshes \<open>active\<close> and asks the
  directory nothing.
\<close>

theorem discover_texture_consistency:
  assumes "initialized c \<or> texture c = None"
    and "win_spout_init forced env c = (c', evs)"
  shows "(initialized c' \<or> texture c' = None) \<and>
         (\<not> initialized c \<and> initialized c' \<longrightarrow>
            texture c' = gs_texture_open_shared env (ucast (dxHandle c'))) \<and>
         (initialized c' \<longrightarrow>
            win_spout_tick env' c' = (c'\<lparr>active := obs_source_active env'\<rparr>, []))"
proof -
  from assms(2) have c': "c' = fst (win_spout_init forced env c)" by simp
  have 1: "initialized c' \<or> texture c' = None"
  proof (cases "initialized c'")
    case True
    then show ?thesis by simp
  next
    case False
    then have "texture c' = texture c" "\<not> initialized c"
      using init_unbound_same [of forced env c] init_bound_keeps [of c forced env]
      unfolding c' by auto
    with assms(1) show ?thesis by simp
  qed
  have 2: "\<not> initialized c \<and> initialized c' \<longrightarrow>
            texture c' = gs_texture_open_shared env (ucast (dxHandle c'))"
    using init_binds_import [of c forced env] unfolding c' by blast
  have 3: "initialized c' \<longrightarrow>
            win_spout_tick env' c' = (c'\<lparr>active := obs_source_active env'\<rparr>, [])"
    by (simp add: tick_unfold)
  from 1 2 3 show ?thesis by blast
qed

theorem discover_texture_consistency_witness:
  "(initialized fresh \<or> texture fresh = None) \<and>
   win_spout_init False (env_sender ''camA'' 10000 (Some 7)) fresh =
     (bound_camA\<lparr>active := False\<rparr>,
      [Call_GetSenderCount, Call_GetSenderName, Call_SetActiveSender ''camA'',
       Call_GetSenderInfo ''camA'', Call_gs_texture_destroy None,
       Call_gs_texture_open_shared 64]) \<and>
   texture (bound_camA\<lparr>active := False\<rparr>) = Some 7 \<and>
   win_spout_tick (env_no_senders 10001) (bound_camA\<lparr>active := False\<rparr>) = (bound_camA, [])"
proof -
  have h1: "initialized fresh \<or> texture fresh = None" by (simp add: fresh_def)
  have h2: "win_spout_init False (env_sender ''camA'' 10000 (Some 7)) fresh =
     (bound_camA\<lparr>active := False\<rparr>,
      [Call_GetSenderCount, Call_GetSenderName, Call_SetActiveSender ''camA'',
       Call_GetSenderInfo ''camA'', Call_gs_texture_destroy None,
       Call_gs_texture_open_shared 64])"
    by (simp add: init_defs env_sender_def fresh_def bound_camA_def)
  show ?thesis
    using h1 h2 discover_texture_consistency [OF h1 h2, of "env_no_senders 10001"]
    by (simp add: bound_camA_def env_no_senders_def)
qed

subsection \<open>C2: the five-second rate limit\<close>

text \<open>
  C2 says that two consecutive non-forced ticks less than 5000 ms apart, on an unbound
  instance, query the directory at most once. On the freshly created struct, ticks at
  tick counts 10000 and 10001 with an empty directory each call \<open>GetSenderCount\<close>: two
  attempts one millisecond apart. \<open>lastCheckTick\<close> is read by the check in
  \<open>win_spout_init\<close> but assigned nowhere, so it stays at the zero of \<open>bzalloc\<close>.
\<close>

theorem two_ticks_two_attempts:
  "run [Tick (env_no_senders 10000), Tick (env_no_senders 10001)] fresh =
     Inr (fresh\<lparr>active := True\<rparr>, [Call_GetSenderCount, Call_GetSenderCount]) \<and>
   discovery_attempts [Call_GetSenderCount, Call_GetSenderCount] = 2"
  by (simp add: tick_unfold init_defs env_no_senders_def fresh_def discovery_attempts_def)

subsection \<open>C3: recording the time of an attempt\<close>

text \<open>
  C3 says that every discovery attempt, failed or successful, stores the current time in
  \<open>lastCheckTick\<close>. At tick count 10000 a failed attempt (empty directory) and a
  successful one (sender \<open>camA\<close>) both leave \<open>lastCheckTick\<close> at 0.
\<close>

theorem attempt_leaves_lastCheckTick:
  "win_spout_tick (env_no_senders 10000) fresh =
     (fresh\<lparr>active := True\<rparr>, [Call_GetSenderCount]) \<and>
   lastCheckTick (fresh\<lparr>active := True\<rparr>) = 0 \<and>
   win_spout_tick (env_sender ''camA'' 10000 (Some 7)) fresh =
     (bound_camA,
      [Call_GetSenderCount, Call_GetSenderName, Call_SetActiveSender ''camA'',
       Call_GetSenderInfo ''camA'', Call_gs_texture_destroy None,
       Call_gs_texture_open_shared 64]) \<and>
   lastCheckTick bound_camA = 0"
  by (simp add: tick_unfold init_defs env_no_senders_def env_sender_def fresh_def bound_camA_def)

subsection \<open>C4: what a configuration update triggers\<close>

text \<open>
  C4 says that an update which changes the flag or the name is followed by an immediate,
  forced discovery attempt. It fails on an unbound instance: updating the freshly
  created struct from the defaults to the explicit name \<open>camB\<close>, with \<open>camB\<close> present in the
  directory, stores the new policy and calls nothing; the instance stays unbound. The
  rebind of \<open>win_spout_update\<close> sits under \<open>if (context->initialized)\<close>.
\<close>

theorem update_unbound_no_discovery_counterexample:
  "win_spout_update (env_sender ''camB'' 10000 (Some 8)) (settings_camB False) fresh =
     Inr (fresh\<lparr>useFirstSender := False, senderName := ''camB''\<rparr>, []) \<and>
   initialized (fresh\<lparr>useFirstSender := False, senderName := ''camB''\<rparr>) = False"
  by (simp add: win_spout_update_def strcpy_senderName_def settings_camB_def fresh_def)

text \<open>
  C4 as amended: for every update whose name fits the buffer, on an instance that a run
  of callbacks after \<open>create\<close> has reached: if the instance is unbound, update only
  stores the new flag and name, with no call to the directory; if it is bound, its
  texture is destroyed if it is non-null, its receiver is released, and then a discovery
  attempt with the new policy is made at once, whatever the tick count: the outcome is
  that of \<open>win_spout_init\<close> with \<open>forced = true\<close>, and the directory is asked exactly once.
\<close>

theorem update_rebinds_when_bound:
  assumes "win_spout_create env0 s0 src spout = Inr (c0, e0)"
    and "run calls c0 = Inr (c, evs0)"
    and "length (customspoutname s) < 256"
  shows "(\<not> initialized c \<longrightarrow>
            win_spout_update env s c =
              Inr (c\<lparr>useFirstSender := usefirstavailablesender s,
                     senderName := customspoutname s\<rparr>, [])) \<and>
         (initialized c \<longrightarrow>
            (\<exists>c' evs.
               win_spout_update env s c =
                 Inr (c', (case texture c of None \<Rightarrow> []
                           | Some t \<Rightarrow> [Call_gs_texture_destroy (Some t)])
                          @ Call_ReleaseReceiver # evs) \<and>
               win_spout_init True env
                 (c\<lparr>useFirstSender := usefirstavailablesender s,
                    senderName := customspoutname s,
                    initialized := False, texture := None\<rparr>) = (c', evs) \<and>
               discovery_attempts evs = 1))"
proof -
  have 1: "\<not> initialized c \<longrightarrow>
            win_spout_update env s c =
              Inr (c\<lparr>useFirstSender := usefirstavailablesender s,
                     senderName := customspoutname s\<rparr>, [])"
    using assms(3) by (simp add: update_unbound)
  have 2: "initialized c \<longrightarrow>
            (\<exists>c' evs.
               win_spout_update env s c =
                 Inr (c', (case texture c of None \<Rightarrow> []
                           | Some t \<Rightarrow> [Call_gs_texture_destroy (Some t)])
                          @ Call_ReleaseReceiver # evs) \<and>
               win_spout_init True env
                 (c\<lparr>useFirstSender := usefirstavailablesender s,
                    senderName := customspoutname s,
                    initialized := False, texture := None\<rparr>) = (c', evs) \<and>
               discovery_attempts evs = 1)"
  proof
    assume a: "initialized c"
    from create_unbound [OF assms(1)] have "initialized c0 \<longrightarrow> spoutptr c0 \<noteq> None" by simp
    from run_bound_spout [OF assms(2) this] a obtain p where p: "spoutptr c = Some p"
      by auto
    have z: "lastCheckTick c = 0"
      using create_unbound [OF assms(1)] run_lastCheckTick [OF assms(2)] by simp
    let ?c1 = "c\<lparr>useFirstSender := usefirstavailablesender s,
                    senderName := customspoutname s,
                    initialized := False, texture := None\<rparr>"
    have f: "win_spout_init False env ?c1 = win_spout_init True env ?c1"
      using z by (simp add: init_unforced_zero)
    have u: "win_spout_update env s c =
       Inr (fst (win_spout_init True env ?c1),
            (case texture c of None \<Rightarrow> [] | Some t \<Rightarrow> [Call_gs_texture_destroy (Some t)])
              @ Call_ReleaseReceiver # snd (win_spout_init True env ?c1))"
      using assms(3) a p by (simp add: update_bound f)
    have n: "discovery_attempts (snd (win_spout_init True env ?c1)) = 1"
      using p by (simp add: count_attempts_init)
    from u n show "\<exists>c' evs.
               win_spout_update env s c =
                 Inr (c', (case texture c of None \<Rightarrow> []
                           | Some t \<Rightarrow> [Call_gs_texture_destroy (Some t)])
                          @ Call_ReleaseReceiver # evs) \<and>
               win_spout_init True env ?c1 = (c', evs) \<and>
               discovery_attempts evs = 1"
      by (intro exI [of _ "fst (win_spout_init True env ?c1)"]
                exI [of _ "snd (win_spout_init True env ?c1)"]) simp
  qed
  from 1 2 show ?thesis by blast
qed

theorem update_rebinds_when_bound_witness:
  "win_spout_create (env_no_senders 0) win_spout_defaults 0 (Some 1) = Inr (fresh, []) \<and>
   run [Tick (env_sender ''camA'' 10000 (Some 7))] fresh =
     Inr (bound_camA,
          [Call_GetSenderCount, Call_GetSenderName, Call_SetActiveSender ''camA'',
           Call_GetSenderInfo ''camA'', Call_gs_texture_destroy None,
           Call_gs_texture_open_shared 64]) \<and>
   length (customspoutname (settings_camB False)) < 256 \<and>
   win_spout_update (env_sender ''camB'' 10001 (Some 8)) (settings_camB False) bound_camA =
     Inr (bound_camA\<lparr>useFirstSender := False, senderName := ''camB'', texture := Some 8\<rparr>,
          [Call_gs_texture_destroy (Some 7), Call_ReleaseReceiver, Call_GetSenderCount,
           Call_GetSenderInfo ''camB'', Call_gs_texture_destroy None,
           Call_gs_texture_open_shared 64])"
proof -
  have h1: "win_spout_create (env_no_senders 0) win_spout_defaults 0 (Some 1) = Inr (fresh, [])"
    by (rule create_fresh)
  have h2: "run [Tick (env_sender ''camA'' 10000 (Some 7))] fresh =
     Inr (bound_camA,
          [Call_GetSenderCount, Call_GetSenderName, Call_SetActiveSender ''camA'',
           Call_GetSenderInfo ''camA'', Call_gs_texture_destroy None,
           Call_gs_texture_open_shared 64])"
    by (simp add: tick_unfold init_defs env_sender_def fresh_def bound_camA_def)
  have h3: "length (customspoutname (settings_camB False)) < 256"
    by (simp add: settings_camB_def)
  have i: "initialized bound_camA" by (simp add: bound_camA_def)
  from update_rebinds_when_bound [OF h1 h2 h3, of "env_sender ''camB'' 10001 (Some 8)"] i
  obtain c' evs where
    u: "win_spout_update (env_sender ''camB'' 10001 (Some 8)) (settings_camB False) bound_camA =
          Inr (c', (case texture bound_camA of None \<Rightarrow> []
                    | Some t \<Rightarrow> [Call_gs_texture_destroy (Some t)])
                   @ Call_ReleaseReceiver # evs)"
    and v: "win_spout_init True (env_sender ''camB'' 10001 (Some 8))
              (bound_camA\<lparr>useFirstSender := usefirstavailablesender (settings_camB False),
                 senderName := customspoutname (settings_camB False),
                 initialized := False, texture := None\<rparr>) = (c', evs)"
    by blast
  from v have "c' = bound_camA\<lparr>useFirstSender := False, senderName := ''camB'', texture := Some 8\<rparr>"
    and "evs = [Call_GetSenderCount, Call_GetSenderInfo ''camB'', Call_gs_texture_destroy None,
           Call_gs_texture_open_shared 64]"
    by (auto simp add: init_defs env_sender_def settings_camB_def bound_camA_def)
  with u h1 h2 h3 show ?thesis by (simp add: bound_camA_def)
qed

subsection \<open>C5: the explicit name under the first-available flag\<close>

text \<open>
  C5 says that with the first-available flag set, update leaves the stored name empty.
  It fails: updating the freshly created struct with the flag set and the name \<open>camB\<close>
  stores \<open>camB\<close> in \<open>senderName\<close>. \<open>win_spout_update\<close> copies the name whatever the flag.
\<close>

theorem update_keeps_name_counterexample:
  "usefirstavailablesender (settings_camB True) \<and>
   win_spout_update (env_no_senders 10000) (settings_camB True) fresh =
     Inr (fresh\<lparr>senderName := ''camB''\<rparr>, []) \<and>
   senderName (fresh\<lparr>senderName := ''camB''\<rparr>) = ''camB''"
  by (simp add: win_spout_update_def strcpy_senderName_def settings_camB_def fresh_def)

text \<open>
  C5 as amended: with the flag set and a name that fits the buffer, update on an unbound
  instance stores the name as given and sets \<open>useFirstSender\<close>; the property callback
  \<open>on_toggle_first_available\<close> leaves such settings as they are; the outcome of update,
  and of any discovery attempt under \<open>useFirstSender\<close>, is the same for any two names up
  to the stored name itself (same calls, same other fields); and a discovery that binds
  under \<open>useFirstSender\<close> has replaced the stored name by the directory's sender 0.
\<close>

theorem first_available_ignores_name:
  assumes "usefirstavailablesender s1" "usefirstavailablesender s2"
    and "length (customspoutname s1) < 256" "length (customspoutname s2) < 256"
  shows "(\<not> initialized c \<longrightarrow>
            win_spout_update env s1 c =
              Inr (c\<lparr>useFirstSender := True, senderName := customspoutname s1\<rparr>, [])) \<and>
         on_toggle_first_available s1 = (True, s1) \<and>
         map_sum id blank_name (win_spout_update env s1 c) =
           map_sum id blank_name (win_spout_update env s2 c) \<and>
         (useFirstSender d \<longrightarrow>
            blank_name (win_spout_init forced env (d\<lparr>senderName := a\<rparr>)) =
            blank_name (win_spout_init forced env (d\<lparr>senderName := b\<rparr>))) \<and>
         (useFirstSender d \<and> \<not> initialized d \<and> initialized (fst (win_spout_init forced env d)) \<longrightarrow>
            GetSenderName0 env = Some (senderName (fst (win_spout_init forced env d))))"
proof -
  have 1: "\<not> initialized c \<longrightarrow>
            win_spout_update env s1 c =
              Inr (c\<lparr>useFirstSender := True, senderName := customspoutname s1\<rparr>, [])"
    using assms(1,3) by (simp add: update_unbound)
  note 2 = update_blank_name [OF assms, of env c]
  have 5: "on_toggle_first_available s1 = (True, s1)"
    using assms(1) by (simp add: on_toggle_first_available_def)
  have 3: "useFirstSender d \<longrightarrow>
            blank_name (win_spout_init forced env (d\<lparr>senderName := a\<rparr>)) =
            blank_name (win_spout_init forced env (d\<lparr>senderName := b\<rparr>))"
    using init_blank_name by blast
  have 4: "useFirstSender d \<and> \<not> initialized d \<and> initialized (fst (win_spout_init forced env d)) \<longrightarrow>
            GetSenderName0 env = Some (senderName (fst (win_spout_init forced env d)))"
    using init_first_name by blast
  from 1 2 3 4 5 show ?thesis by blast
qed

theorem first_available_ignores_name_witness:
  "usefirstavailablesender (settings_camB True) \<and> usefirstavailablesender win_spout_defaults \<and>
   length (customspoutname (settings_camB True)) < 256 \<and>
   length (customspoutname win_spout_defaults) < 256 \<and>
   win_spout_update (env_sender ''camA'' 10000 (Some 8)) (settings_camB True) bound_camA =
     Inr (bound_camA\<lparr>texture := Some 8\<rparr>,
          [Call_gs_texture_destroy (Some 7), Call_ReleaseReceiver, Call_GetSenderCount,
           Call_GetSenderName, Call_SetActiveSender ''camA'', Call_GetSenderInfo ''camA'',
           Call_gs_texture_destroy None, Call_gs_texture_open_shared 64]) \<and>
   map_sum id blank_name
     (win_spout_update (env_sender ''camA'' 10000 (Some 8)) win_spout_defaults bound_camA) =
     Inr (bound_camA\<lparr>texture := Some 8, senderName := []\<rparr>,
          [Call_gs_texture_destroy (Some 7), Call_ReleaseReceiver, Call_GetSenderCount,
           Call_GetSenderName, Call_SetActiveSender ''camA'', Call_GetSenderInfo ''camA'',
           Call_gs_texture_destroy None, Call_gs_texture_open_shared 64])"
proof -
  have h1: "usefirstavailablesender (settings_camB True)" by (simp add: settings_camB_def)
  have h2: "usefirstavailablesender win_spout_defaults" by (simp add: win_spout_defaults_def)
  have h3: "length (customspoutname (settings_camB True)) < 256" by (simp add: settings_camB_def)
  have h4: "length (customspoutname win_spout_defaults) < 256" by (simp add: win_spout_defaults_def)
  have u: "win_spout_update (env_sender ''camA'' 10000 (Some 8)) (settings_camB True) bound_camA =
     Inr (bound_camA\<lparr>texture := Some 8\<rparr>,
          [Call_gs_texture_destroy (Some 7), Call_ReleaseReceiver, Call_GetSenderCount,
           Call_GetSenderName, Call_SetActiveSender ''camA'', Call_GetSenderInfo ''camA'',
           Call_gs_texture_destroy None, Call_gs_texture_open_shared 64])"
    by (simp add: win_spout_update_def strcpy_senderName_def win_spout_deinit_def init_defs
          env_sender_def settings_camB_def bound_camA_def)
  from first_available_ignores_name [OF h1 h2 h3 h4, of bound_camA "env_sender ''camA'' 10000 (Some 8)"]
  have "map_sum id blank_name
          (win_spout_update (env_sender ''camA'' 10000 (Some 8)) (settings_camB True) bound_camA) =
        map_sum id blank_name
          (win_spout_update (env_sender ''camA'' 10000 (Some 8)) win_spout_defaults bound_camA)"
    by blast
  with u h1 h2 h3 h4 show ?thesis by (simp add: blank_name_def bound_camA_def)
qed

subsection \<open>C6: hide releases the texture once\<close>

text \<open>
  C6: for every bound instance that a run of callbacks after \<open>create\<close> reaches, hide
  succeeds, leaves \<open>initialized = false\<close> and a null texture, and hands the bound texture
  to \<open>gs_texture_destroy\<close> exactly once (not at all when the instance was bound with a
  null texture); a second hide, or a destroy, after it destroys no texture.
\<close>

theorem hide_destroys_texture_once:
  assumes "win_spout_create env0 s0 src spout = Inr (c0, e0)"
    and "run calls c0 = Inr (c, evs)"
    and "initialized c"
  shows "\<exists>c' evs'.
           win_spout_hide c = Inr (c', evs') \<and> \<not> initialized c' \<and> texture c' = None \<and>
           destroyed evs' = (case texture c of None \<Rightarrow> [] | Some t \<Rightarrow> [t]) \<and>
           (\<exists>evs2. win_spout_hide c' = Inr (c', evs2) \<and> destroyed evs2 = []) \<and>
           (\<exists>evs3. win_spout_destroy c' = Inr evs3 \<and> destroyed evs3 = [])"
proof -
  from create_unbound [OF assms(1)] have "initialized c0 \<longrightarrow> spoutptr c0 \<noteq> None" by simp
  from run_bound_spout [OF assms(2) this] assms(3) obtain p where p: "spoutptr c = Some p"
    by auto
  let ?c' = "c\<lparr>initialized := False, texture := None\<rparr>"
  have p': "spoutptr ?c' = Some p" using p by simp
  have 1: "win_spout_hide c =
       Inr (?c', (case texture c of None \<Rightarrow> [] | Some t \<Rightarrow> [Call_gs_texture_destroy (Some t)])
              @ [Call_ReleaseReceiver])"
    by (rule hide_live [OF p])
  have 2: "win_spout_hide ?c' = Inr (?c', [Call_ReleaseReceiver])"
    using hide_live [OF p'] by simp
  have 3: "win_spout_destroy ?c' = Inr [Call_ReleaseReceiver, Call_Release, Call_bfree]"
    using destroy_live [OF p'] by simp
  show ?thesis
    by (simp add: 1 2 3 destroyed_deinit_events)
qed

theorem hide_destroys_texture_once_witness:
  "win_spout_create (env_no_senders 0) win_spout_defaults 0 (Some 1) = Inr (fresh, []) \<and>
   run [Tick (env_sender ''camA'' 10000 (Some 7))] fresh =
     Inr (bound_camA,
          [Call_GetSenderCount, Call_GetSenderName, Call_SetActiveSender ''camA'',
           Call_GetSenderInfo ''camA'', Call_gs_texture_destroy None,
           Call_gs_texture_open_shared 64]) \<and>
   initialized bound_camA \<and>
   (\<exists>c' evs'.
      win_spout_hide bound_camA = Inr (c', evs') \<and> \<not> initialized c' \<and> texture c' = None \<and>
      destroyed evs' = [7] \<and>
      (\<exists>evs2. win_spout_hide c' = Inr (c', evs2) \<and> destroyed evs2 = []) \<and>
      (\<exists>evs3. win_spout_destroy c' = Inr evs3 \<and> destroyed evs3 = []))"
proof -
  have h1: "win_spout_create (env_no_senders 0) win_spout_defaults 0 (Some 1) = Inr (fresh, [])"
    by (rule create_fresh)
  have h2: "run [Tick (env_sender ''camA'' 10000 (Some 7))] fresh =
     Inr (bound_camA,
          [Call_GetSenderCount, Call_GetSenderName, Call_SetActiveSender ''camA'',
           Call_GetSenderInfo ''camA'', Call_gs_texture_destroy None,
           Call_gs_texture_open_shared 64])"
    by (simp add: tick_unfold init_defs env_sender_def fresh_def bound_camA_def)
  have h3: "initialized bound_camA" by (simp add: bound_camA_def)
  have t: "texture bound_camA = Some 7" by (simp add: bound_camA_def)
  from hide_destroys_texture_once [OF h1 h2 h3] h1 h2 h3 show ?thesis
    unfolding t by simp
qed

subsection \<open>C7: the render gate\<close>

text \<open>
  C7: render returns the struct as it received it; every call it makes is a draw; it
  draws a texture only if \<open>active\<close> and \<open>initialized\<close> hold and that texture is the bound,
  non-null one; if one of the three fails it makes no call; and if all three hold it
  draws the bound texture once per pass of the effect loop.
\<close>

theorem render_gate:
  "fst (win_spout_render env c) = c \<and>
   (\<forall>t. Call_obs_source_draw t \<in> set (snd (win_spout_render env c)) \<longrightarrow>
      active c \<and> initialized c \<and> texture c = Some t) \<and>
   (\<forall>e \<in> set (snd (win_spout_render env c)). \<exists>t. e = Call_obs_source_draw t) \<and>
   (\<not> (active c \<and> initialized c \<and> texture c \<noteq> None) \<longrightarrow> snd (win_spout_render env c) = []) \<and>
   (\<forall>t. active c \<and> initialized c \<and> texture c = Some t \<longrightarrow>
      snd (win_spout_render env c) = draw_loop (gs_effect_loop_passes env) t)"
  using set_draw_loop
  by (auto simp add: win_spout_render_def split: option.splits)

theorem render_gate_witness:
  "win_spout_render (env_no_senders 10000) bound_camA = (bound_camA, [Call_obs_source_draw 7]) \<and>
   win_spout_render (env_no_senders 10000) (bound_camA\<lparr>active := False\<rparr>) =
     (bound_camA\<lparr>active := False\<rparr>, [])"
  using render_gate [of "env_no_senders 10000" bound_camA]
        render_gate [of "env_no_senders 10000" "bound_camA\<lparr>active := False\<rparr>"]
  by (simp add: win_spout_render_def env_no_senders_def bound_camA_def)

subsection \<open>C8: an empty directory\<close>

text \<open>
  C8: when \<open>GetSenderCount\<close> answers zero, under either policy and forced or not, a
  discovery attempt returns the struct unchanged (so an unbound instance stays unbound
  with its width and height), never calls \<open>GetSenderInfo\<close>, and its only call, when it
  gets past the guards, is the one \<open>GetSenderCount\<close>.
\<close>

theorem no_senders_no_lookup:
  assumes "GetSenderCount env = 0"
    and "win_spout_init forced env c = (c', evs)"
  shows "c' = c \<and> initialized c' = initialized c \<and> width c' = width c \<and> height c' = height c \<and>
         (\<forall>n. Call_GetSenderInfo n \<notin> set evs) \<and>
         evs = (if initialized c \<or> (GetTickCount env - 5000 < lastCheckTick c \<and> \<not> forced)
                     \<or> spoutptr c = None
                then [] else [Call_GetSenderCount])"
  using assms(2) unfolding init_no_senders [OF assms(1)] by auto

theorem no_senders_no_lookup_witness:
  "GetSenderCount (env_no_senders 10000) = 0 \<and>
   win_spout_init False (env_no_senders 10000) fresh = (fresh, [Call_GetSenderCount]) \<and>
   \<not> initialized fresh \<and> width fresh = 100 \<and> height fresh = 100 \<and>
   win_spout_init False (env_no_senders 10000) (fresh\<lparr>useFirstSender := False\<rparr>) =
     (fresh\<lparr>useFirstSender := False\<rparr>, [Call_GetSenderCount])"
proof -
  have h1: "GetSenderCount (env_no_senders 10000) = 0" by (simp add: env_no_senders_def)
  have h2: "win_spout_init False (env_no_senders 10000) fresh = (fresh, [Call_GetSenderCount])"
    by (simp add: init_defs env_no_senders_def fresh_def)
  have h3: "win_spout_init False (env_no_senders 10000) (fresh\<lparr>useFirstSender := False\<rparr>) =
     (fresh\<lparr>useFirstSender := False\<rparr>, [Call_GetSenderCount])"
    by (simp add: init_defs env_no_senders_def fresh_def)
  show ?thesis
    using h1 h2 h3 no_senders_no_lookup [OF h1 h2] no_senders_no_lookup [OF h1 h3]
    by (simp add: fresh_def)
qed

subsection \<open>C9: the bound on the stored sender name\<close>

text \<open>
  C9 says that the stored sender name stays within 255 code units for input of any
  length. \<open>win_spout_update\<close> copies the setting with an unbounded \<open>strcpy\<close>: a custom
  name of 256 characters needs 257 bytes of the 256-byte buffer, which is undefined
  behaviour, here the value \<open>SenderNameOverflow\<close>.
\<close>

theorem update_long_name_overflows:
  "win_spout_update (env_no_senders 10000) settings_long fresh = Inl SenderNameOverflow"
  by (simp add: win_spout_update_def strcpy_senderName_def settings_long_def)

subsection \<open>C10: width and height while unbound\<close>

text \<open>
  C10: hide on an instance with a live Spout object succeeds, unbinds, and leaves what
  \<open>get_width\<close> and \<open>get_height\<close> report as it was; every callback that leaves the
  instance unbound leaves them as they were; a discovery that binds sets them to what
  \<open>GetSenderInfo\<close> reported for the sender; \<open>create\<close> starts them at 100 by 100; every
  callback, bound or not before and after, leaves them as they were unless it bound a
  producer, and then they are that producer's; and so after every run of callbacks
  following \<open>create\<close>, and in particular while unbound, they are the dimensions of the
  last producer bound, or 100 by 100 if none was.
\<close>

theorem hide_keeps_dimensions:
  "(spoutptr c \<noteq> None \<longrightarrow>
      (\<exists>c' evs. win_spout_hide c = Inr (c', evs) \<and> \<not> initialized c' \<and>
         win_spout_getwidth c' = win_spout_getwidth c \<and>
         win_spout_getheight c' = win_spout_getheight c)) \<and>
   (dispatch x c1 = Inr (c2, evs2) \<and> \<not> initialized c2 \<longrightarrow>
      win_spout_getwidth c2 = win_spout_getwidth c1 \<and>
      win_spout_getheight c2 = win_spout_getheight c1) \<and>
   (\<not> initialized c3 \<and> initialized (fst (win_spout_init forced env c3)) \<longrightarrow>
      (\<exists>hdl fmt. GetSenderInfo env (senderName (fst (win_spout_init forced env c3))) =
         Some (win_spout_getwidth (fst (win_spout_init forced env c3)),
               win_spout_getheight (fst (win_spout_init forced env c3)), hdl, fmt))) \<and>
   (win_spout_create env0 s0 src spout = Inr (c0, evs0) \<longrightarrow>
      \<not> initialized c0 \<and> win_spout_getwidth c0 = 100 \<and> win_spout_getheight c0 = 100) \<and>
   (dispatch x c1 = Inr (c2, evs2) \<longrightarrow>
      (win_spout_getwidth c2, win_spout_getheight c2) =
        (case bound_dims x evs2 of
           None \<Rightarrow> (win_spout_getwidth c1, win_spout_getheight c1)
         | Some d \<Rightarrow> d)) \<and>
   (win_spout_create env0 s0 src spout = Inr (c0, evs0) \<and> run calls c0 = Inr (cN, evsN) \<longrightarrow>
      (win_spout_getwidth cN, win_spout_getheight cN) = last_bound_dims calls c0 (100, 100))"
proof -
  have 1: "spoutptr c \<noteq> None \<longrightarrow>
      (\<exists>c' evs. win_spout_hide c = Inr (c', evs) \<and> \<not> initialized c' \<and>
         win_spout_getwidth c' = win_spout_getwidth c \<and>
         win_spout_getheight c' = win_spout_getheight c)"
    by (auto simp add: hide_live win_spout_getwidth_def win_spout_getheight_def)
  have 2: "dispatch x c1 = Inr (c2, evs2) \<and> \<not> initialized c2 \<longrightarrow>
      win_spout_getwidth c2 = win_spout_getwidth c1 \<and>
      win_spout_getheight c2 = win_spout_getheight c1"
    using dispatch_unbound_dims [of x c1 c2 evs2]
    by (simp add: win_spout_getwidth_def win_spout_getheight_def)
  have 3: "\<not> initialized c3 \<and> initialized (fst (win_spout_init forced env c3)) \<longrightarrow>
      (\<exists>hdl fmt. GetSenderInfo env (senderName (fst (win_spout_init forced env c3))) =
         Some (win_spout_getwidth (fst (win_spout_init forced env c3)),
               win_spout_getheight (fst (win_spout_init forced env c3)), hdl, fmt))"
    using init_binds_dims [of c3 forced env]
    by (simp add: win_spout_getwidth_def win_spout_getheight_def)
  have 4: "win_spout_create env0 s0 src spout = Inr (c0, evs0) \<longrightarrow>
      \<not> initialized c0 \<and> win_spout_getwidth c0 = 100 \<and> win_spout_getheight c0 = 100"
    using create_unbound [of env0 s0 src spout c0 evs0]
    by (simp add: win_spout_getwidth_def win_spout_getheight_def)
  have 5: "dispatch x c1 = Inr (c2, evs2) \<longrightarrow>
      (win_spout_getwidth c2, win_spout_getheight c2) =
        (case bound_dims x evs2 of
           None \<Rightarrow> (win_spout_getwidth c1, win_spout_getheight c1)
         | Some d \<Rightarrow> d)"
    using dispatch_step_dims [of x c1 c2 evs2]
    by (simp add: win_spout_getwidth_def win_spout_getheight_def cong: option.case_cong)
  have 6: "win_spout_create env0 s0 src spout = Inr (c0, evs0) \<and> run calls c0 = Inr (cN, evsN) \<longrightarrow>
      (win_spout_getwidth cN, win_spout_getheight cN) = last_bound_dims calls c0 (100, 100)"
    using create_unbound [of env0 s0 src spout c0 evs0] run_last_bound_dims [of calls c0 cN evsN]
    by (auto simp add: win_spout_getwidth_def win_spout_getheight_def)
  from 1 2 3 4 5 6 show ?thesis by blast
qed

theorem hide_keeps_dimensions_witness:
  "win_spout_create (env_no_senders 0) win_spout_defaults 0 (Some 1) = Inr (fresh, []) \<and>
   run [Tick (env_sender ''camA'' 10000 (Some 7)), Show (env_no_senders 10001), Hide,
        Tick (env_no_senders 20000)] fresh =
     Inr (bound_camA\<lparr>initialized := False, texture := None\<rparr>,
          [Call_GetSenderCount, Call_GetSenderName, Call_SetActiveSender ''camA'',
           Call_GetSenderInfo ''camA'', Call_gs_texture_destroy None,
           Call_gs_texture_open_shared 64, Call_gs_texture_destroy (Some 7),
           Call_ReleaseReceiver, Call_GetSenderCount]) \<and>
   win_spout_getwidth (bound_camA\<lparr>initialized := False, texture := None\<rparr>) = 1920 \<and>
   win_spout_getheight (bound_camA\<lparr>initialized := False, texture := None\<rparr>) = 1080 \<and>
   last_bound_dims
     [Tick (env_sender ''camA'' 10000 (Some 7)), Show (env_no_senders 10001), Hide,
      Tick (env_no_senders 20000)] fresh (100, 100) = (1920, 1080) \<and>
   last_bound_dims [Tick (env_no_senders 10000), Hide] fresh (100, 100) = (100, 100) \<and>
   win_spout_hide bound_camA =
     Inr (bound_camA\<lparr>initialized := False, texture := None\<rparr>,
          [Call_gs_texture_destroy (Some 7), Call_ReleaseReceiver])"
proof -
  have h1: "win_spout_create (env_no_senders 0) win_spout_defaults 0 (Some 1) = Inr (fresh, [])"
    by (rule create_fresh)
  have h2: "run [Tick (env_sender ''camA'' 10000 (Some 7)), Show (env_no_senders 10001), Hide,
        Tick (env_no_senders 20000)] fresh =
     Inr (bound_camA\<lparr>initialized := False, texture := None\<rparr>,
          [Call_GetSenderCount, Call_GetSenderName, Call_SetActiveSender ''camA'',
           Call_GetSenderInfo ''camA'', Call_gs_texture_destroy None,
           Call_gs_texture_open_shared 64, Call_gs_texture_destroy (Some 7),
           Call_ReleaseReceiver, Call_GetSenderCount])"
    by (simp add: tick_unfold win_spout_show_def win_spout_hide_def win_spout_deinit_def
          init_defs env_sender_def env_no_senders_def fresh_def bound_camA_def)
  have h3: "win_spout_hide bound_camA =
     Inr (bound_camA\<lparr>initialized := False, texture := None\<rparr>,
          [Call_gs_texture_destroy (Some 7), Call_ReleaseReceiver])"
    by (simp add: hide_live bound_camA_def)
  have h4: "last_bound_dims [Tick (env_no_senders 10000), Hide] fresh (100, 100) = (100, 100)"
    by (simp add: tick_unfold win_spout_hide_def win_spout_deinit_def init_defs
          env_no_senders_def fresh_def bound_dims_def reported_dims_def)
  have s: "spoutptr bound_camA \<noteq> None" by (simp add: bound_camA_def)
  have "(win_spout_create (env_no_senders 0) win_spout_defaults 0 (Some 1) = Inr (fresh, []) \<and>
         run [Tick (env_sender ''camA'' 10000 (Some 7)), Show (env_no_senders 10001), Hide,
              Tick (env_no_senders 20000)] fresh =
           Inr (bound_camA\<lparr>initialized := False, texture := None\<rparr>,
                [Call_GetSenderCount, Call_GetSenderName, Call_SetActiveSender ''camA'',
                 Call_GetSenderInfo ''camA'', Call_gs_texture_destroy None,
                 Call_gs_texture_open_shared 64, Call_gs_texture_destroy (Some 7),
                 Call_ReleaseReceiver, Call_GetSenderCount]) \<longrightarrow>
         (win_spout_getwidth (bound_camA\<lparr>initialized := False, texture := None\<rparr>),
          win_spout_getheight (bound_camA\<lparr>initialized := False, texture := None\<rparr>)) =
           last_bound_dims
             [Tick (env_sender ''camA'' 10000 (Some 7)), Show (env_no_senders 10001), Hide,
              Tick (env_no_senders 20000)] fresh (100, 100))"
    using hide_keeps_dimensions
      [where ?env0.0 = "env_no_senders 0" and ?s0.0 = win_spout_defaults and src = 0
         and spout = "Some 1" and ?c0.0 = fresh and ?evs0.0 = "[]"
         and calls = "[Tick (env_sender ''camA'' 10000 (Some 7)), Show (env_no_senders 10001),
                       Hide, Tick (env_no_senders 20000)]"
         and cN = "bound_camA\<lparr>initialized := False, texture := None\<rparr>"
         and evsN = "[Call_GetSenderCount, Call_GetSenderName, Call_SetActiveSender ''camA'',
                 Call_GetSenderInfo ''camA'', Call_gs_texture_destroy None,
                 Call_gs_texture_open_shared 64, Call_gs_texture_destroy (Some 7),
                 Call_ReleaseReceiver, Call_GetSenderCount]"]
    by blast
  with h1 h2 have e: "last_bound_dims
             [Tick (env_sender ''camA'' 10000 (Some 7)), Show (env_no_senders 10001), Hide,
              Tick (env_no_senders 20000)] fresh (100, 100) =
          (win_spout_getwidth (bound_camA\<lparr>initialized := False, texture := None\<rparr>),
           win_spout_getheight (bound_camA\<lparr>initialized := False, texture := None\<rparr>))"
    by simp
  have w: "win_spout_getwidth (bound_camA\<lparr>initialized := False, texture := None\<rparr>) = 1920"
    and h: "win_spout_getheight (bound_camA\<lparr>initialized := False, texture := None\<rparr>) = 1080"
    by (simp_all add: win_spout_getwidth_def win_spout_getheight_def bound_camA_def)
  from h1 h2 h3 h4 e w h show ?thesis by simp
qed

end
